theory Spec2Isabelle
  imports Main "HOL-Library.Sublist"
begin


section \<open>Python strings\<close>



definition py_upper_char :: "char \<Rightarrow> char" where
  "py_upper_char c =
     (let n = (of_char c :: nat) in if 97 \<le> n \<and> n \<le> 122 then char_of (n - 32) else c)"

definition py_lower_char :: "char \<Rightarrow> char" where
  "py_lower_char c =
     (let n = (of_char c :: nat) in if 65 \<le> n \<and> n \<le> 90 then char_of (n + 32) else c)"

definition py_upper :: "string \<Rightarrow> string" where
  "py_upper s = map py_upper_char s"

definition py_lower :: "string \<Rightarrow> string" where
  "py_lower s = map py_lower_char s"

definition is_digit :: "char \<Rightarrow> bool" where
  "is_digit c = (let n = (of_char c :: nat) in 48 \<le> n \<and> n \<le> 57)"

definition is_word :: "char \<Rightarrow> bool" where
  "is_word c =
     (let n = (of_char c :: nat)
      in (48 \<le> n \<and> n \<le> 57) \<or> (65 \<le> n \<and> n \<le> 90) \<or> (97 \<le> n \<and> n \<le> 122) \<or> n = 95)"


text \<open>\<open>s.startswith(p)\<close>\<close>

fun startswith :: "string \<Rightarrow> string \<Rightarrow> bool" where
  "startswith s [] = True"
| "startswith [] (p # ps) = False"
| "startswith (c # cs) (p # ps) = (c = p \<and> startswith cs ps)"

text \<open>\<open>s.endswith(p)\<close>\<close>

definition endswith :: "string \<Rightarrow> string \<Rightarrow> bool" where
  "endswith s p = startswith (rev s) (rev p)"

text \<open>\<open>needle in hay\<close>\<close>

fun py_in :: "string \<Rightarrow> string \<Rightarrow> bool" where
  "py_in needle [] = (needle = [])"
| "py_in needle (c # cs) = (startswith (c # cs) needle \<or> py_in needle cs)"


text \<open>\<open>hay.count(needle)\<close>: the number of non-overlapping occurrences, left to right.\<close>

function py_count :: "string \<Rightarrow> string \<Rightarrow> nat" where
  "py_count needle hay =
     (if needle = [] then Suc (length hay)
      else if hay = [] then 0
      else if startswith hay needle then Suc (py_count needle (drop (length needle) hay))
      else py_count needle (tl hay))"
  by pat_completeness auto
termination
  by (relation "measure (\<lambda>(needle, hay). length hay)") auto

declare py_count.simps [simp del]

text \<open>\<open>s.replace(old, new)\<close>, for a non-empty \<open>old\<close>: every non-overlapping occurrence,
  left to right. (With an empty \<open>old\<close> Python inserts \<open>new\<close> around every character; no
  call of the program passes one, and the model returns \<open>s\<close> unchanged there.)\<close>

function py_replace :: "string \<Rightarrow> string \<Rightarrow> string \<Rightarrow> string" where
  "py_replace old new s =
     (if old = [] \<or> s = [] then s
      else if startswith s old then new @ py_replace old new (drop (length old) s)
      else hd s # py_replace old new (tl s))"
  by pat_completeness auto
termination
  by (relation "measure (\<lambda>(old, new, s). length s)") auto

declare py_replace.simps [simp del]

text \<open>\<open>sep.join(xs)\<close>\<close>

fun py_join :: "string \<Rightarrow> string list \<Rightarrow> string" where
  "py_join sep [] = []"
| "py_join sep [x] = x"
| "py_join sep (x # y # ys) = x @ sep @ py_join sep (y # ys)"

section \<open>Query validator (src/utils/query\_validator.py)\<close>

text \<open>
  The two collaborators of the validator are parameters of the model: the schema loader
  gives the catalogs of node labels and relationship types, and the database connector's
  \<open>validate_cypher_syntax\<close> answers \<open>(True, None)\<close> or \<open>(False, str(e))\<close>, here
  \<open>None\<close> or \<open>Some message\<close>.
\<close>

record validator_env =
  node_types :: "string list"
  relationship_types :: "string list"
  validate_cypher_syntax :: "string \<Rightarrow> string option"

text \<open>\<open>re.findall(r':(\w+)', query)\<close>\<close>

function findall_node_labels :: "string \<Rightarrow> string list" where
  "findall_node_labels [] = []"
| "findall_node_labels (c # cs) =
     (if c = CHR '':'' \<and> takeWhile is_word cs \<noteq> []
      then takeWhile is_word cs # findall_node_labels (dropWhile is_word cs)
      else findall_node_labels cs)"
  by pat_completeness auto
termination
  by (relation "measure length") (auto simp: le_imp_less_Suc length_dropWhile_le)

text \<open>
  One attempt to match \<open>\[(?:[\w]*):(\w+)(?:\*)?(?:\.\.\d+)?\]\<close> at the head of the text:
  the captured group and the text after the match. Each greedy part is followed by a
  character outside its own class, so the maximal run is the only run that can match.
\<close>

definition opt_star :: "string \<Rightarrow> string" where
  "opt_star s = (case s of c # r \<Rightarrow> if c = CHR ''*'' then r else s | [] \<Rightarrow> s)"

definition opt_range :: "string \<Rightarrow> string" where
  "opt_range s =
     (case s of
        a # b # r \<Rightarrow>
          if a = CHR ''.'' \<and> b = CHR ''.'' \<and> takeWhile is_digit r \<noteq> []
          then dropWhile is_digit r else s
      | _ \<Rightarrow> s)"

definition match_rel_at :: "string \<Rightarrow> (string \<times> string) option" where
  "match_rel_at s =
     (case s of
        [] \<Rightarrow> None
      | c # r \<Rightarrow>
          if c \<noteq> CHR ''['' then None
          else (case dropWhile is_word r of
                  [] \<Rightarrow> None
                | d # r2 \<Rightarrow>
                    if d \<noteq> CHR '':'' \<or> takeWhile is_word r2 = [] then None
                    else (case opt_range (opt_star (dropWhile is_word r2)) of
                            [] \<Rightarrow> None
                          | e # rest \<Rightarrow>
                              if e = CHR '']'' then Some (takeWhile is_word r2, rest)
                              else None)))"

text \<open>\<open>re.findall\<close> of the relationship pattern: after a match the scan goes on behind
  it, otherwise one character further.\<close>

fun findall_rel_skip :: "nat \<Rightarrow> string \<Rightarrow> string list" where
  "findall_rel_skip k [] = []"
| "findall_rel_skip (Suc k) (c # cs) = findall_rel_skip k cs"
| "findall_rel_skip 0 (c # cs) =
     (case match_rel_at (c # cs) of
        Some (w, rest) \<Rightarrow> w # findall_rel_skip (length cs - length rest) cs
      | None \<Rightarrow> findall_rel_skip 0 cs)"

definition findall_rel_types :: "string \<Rightarrow> string list" where
  "findall_rel_types s = findall_rel_skip 0 s"

text \<open>
  \<open>_validate_schema_entities\<close>. The source walks \<open>set(node_labels)\<close>, whose order Python
  leaves open; the model walks the distinct tokens in the order of their last occurrence.
\<close>

definition unknown_label_msg :: "string \<Rightarrow> string" where
  "unknown_label_msg label = ''ERROR: Unknown node label '' @ [CHR 0x27] @ label @ [CHR 0x27]"

definition unknown_rel_msg :: "string \<Rightarrow> string" where
  "unknown_rel_msg rel_type =
     ''ERROR: Unknown relationship type '' @ [CHR 0x27] @ rel_type @ [CHR 0x27]"

definition validate_schema_entities :: "validator_env \<Rightarrow> string \<Rightarrow> bool \<times> string list" where
  "validate_schema_entities env query =
     (let node_labels = findall_node_labels query;
          rel_types = findall_rel_types query;
          errors =
            map unknown_label_msg
              (filter (\<lambda>label. label \<notin> set (node_types env)) (remdups node_labels)) @
            map unknown_rel_msg
              (filter (\<lambda>rel_type. rel_type \<notin> set (relationship_types env))
                 (remdups rel_types))
      in (errors = [], errors))"

text \<open>\<open>_check_security\<close>\<close>

definition destructive_keywords :: "string list" where
  "destructive_keywords =
     [''DELETE'', ''DETACH DELETE'', ''REMOVE'', ''DROP'', ''CREATE INDEX'', ''DROP INDEX'',
      ''CREATE CONSTRAINT'', ''DROP CONSTRAINT'']"

definition destructive_msg :: "string \<Rightarrow> string" where
  "destructive_msg keyword =
     ''ERROR: Destructive operation '' @ [CHR 0x27] @ keyword @ [CHR 0x27] @ '' not allowed''"

definition create_warning :: string where
  "create_warning = ''WARNING: CREATE operation detected - ensure this is intentional''"

definition merge_warning :: string where
  "merge_warning = ''WARNING: MERGE operation detected - ensure this is intentional''"

definition check_security :: "string \<Rightarrow> bool \<times> string list" where
  "check_security query =
     (let query_upper = py_upper query;
          errors =
            map destructive_msg (filter (\<lambda>keyword. py_in keyword query_upper) destructive_keywords) @
            (if py_in ''CREATE '' query_upper \<and> ''CREATE'' \<notin> set [''CREATE INDEX'']
             then [create_warning] else []) @
            (if py_in ''MERGE'' query_upper then [merge_warning] else [])
      in (length (filter (\<lambda>e. startswith e ''ERROR'') errors) = 0, errors))"

text \<open>\<open>_check_performance\<close>\<close>

definition missing_limit_warning :: string where
  "missing_limit_warning = ''WARNING: Query lacks LIMIT clause - may return large result set''"

definition cartesian_warning :: string where
  "cartesian_warning =
     ''WARNING: Multiple MATCH clauses without WHERE - possible cartesian product''"

definition varlen_warning :: string where
  "varlen_warning =
     ''WARNING: Variable-length pattern without WHERE clause may be expensive''"

text \<open>\<open>re.search(r'\*\d+\.\.', query)\<close>: is there a match anywhere in the text.\<close>

definition match_varlen_at :: "string \<Rightarrow> bool" where
  "match_varlen_at s =
     (case s of
        [] \<Rightarrow> False
      | c # r \<Rightarrow> c = CHR ''*'' \<and> takeWhile is_digit r \<noteq> [] \<and>
                 startswith (dropWhile is_digit r) ''..'')"

fun search_varlen :: "string \<Rightarrow> bool" where
  "search_varlen [] = False"
| "search_varlen (c # cs) = (match_varlen_at (c # cs) \<or> search_varlen cs)"

definition check_performance :: "string \<Rightarrow> string list" where
  "check_performance query =
     (let query_upper = py_upper query in
        (if py_in ''MATCH'' query_upper \<and> \<not> py_in ''LIMIT'' query_upper
         then (if \<not> py_in ''COUNT'' query_upper \<and> \<not> py_in ''RETURN COUNT'' query_upper
               then [missing_limit_warning] else [])
         else []) @
        (if py_count ''MATCH'' query_upper > 1 \<and> \<not> py_in ''WHERE'' query_upper
         then [cartesian_warning] else []) @
        (if search_varlen query
         then (if \<not> py_in ''WHERE'' query_upper then [varlen_warning] else [])
         else []))"

text \<open>\<open>validate_query\<close>: the four stages in the order of the source, with its two early
  returns.\<close>

definition validate_query :: "validator_env \<Rightarrow> string \<Rightarrow> bool \<times> string list" where
  "validate_query env query =
     (case validate_cypher_syntax env query of
        Some syntax_error \<Rightarrow> (False, [''Syntax error: '' @ syntax_error])
      | None \<Rightarrow>
          (let errors1 = (case validate_schema_entities env query of
                            (schema_valid, schema_errors) \<Rightarrow>
                              if \<not> schema_valid then schema_errors else [])
           in case check_security query of
                (security_valid, security_errors) \<Rightarrow>
                  if \<not> security_valid then (False, errors1 @ security_errors)
                  else (let errors2 = errors1 @ check_performance query
                        in (list_all (\<lambda>e. \<not> startswith e ''ERROR:'') errors2, errors2))))"

text \<open>A small schema and a database that accepts every query, for the examples.\<close>

definition example_env :: validator_env where
  "example_env =
     \<lparr>node_types = [''Drug'', ''Gene'', ''Disease''],
      relationship_types = [''TARGETS'', ''TREATS''],
      validate_cypher_syntax = (\<lambda>query. None)\<rparr>"

text \<open>The same schema behind a database whose \<open>EXPLAIN\<close> fails on every query.\<close>

definition failing_env :: validator_env where
  "failing_env =
     \<lparr>node_types = [''Drug'', ''Gene'', ''Disease''],
      relationship_types = [''TARGETS'', ''TREATS''],
      validate_cypher_syntax = (\<lambda>query. Some ''Invalid input'')\<rparr>"

section \<open>Query templates (src/templates/base\_templates.py, config/settings.py)\<close>


















text \<open>
  The templates of the three libraries. The query text of each, a triple-quoted Python
  string, is given line by line (\<open>name_cypher\<close>) and joined by \<open>concat\<close>.
\<close>

subsection \<open>DrugRepurposingTemplates (src/templates/drug\_repurposing.py)\<close>












subsection \<open>TargetIdentificationTemplates (src/templates/target\_identification.py)\<close>














subsection \<open>IndicationExpansionTemplates (src/templates/indication\_expansion.py)\<close>














section \<open>Intent classifier (src/agents/intent\_classifier.py)\<close>










section \<open>Facts about the string functions\<close>

lemma startswith_iff: "startswith s p \<longleftrightarrow> (\<exists>r. s = p @ r)"
  by (induction s p rule: startswith.induct) auto

lemma py_in_iff: "py_in n h \<longleftrightarrow> (\<exists>pre post. h = pre @ n @ post)"
proof (induction h)
  case Nil
  then show ?case by auto
next
  case (Cons c cs)
  show ?case
  proof
    assume "py_in n (c # cs)"
    then consider "startswith (c # cs) n" | "py_in n cs" by auto
    then show "\<exists>pre post. c # cs = pre @ n @ post"
    proof cases
      case 1
      then obtain r where "c # cs = n @ r" by (auto simp: startswith_iff)
      then have "c # cs = [] @ n @ r" by simp
      then show ?thesis by blast
    next
      case 2
      then obtain pre post where "cs = pre @ n @ post" using Cons.IH by auto
      then have "c # cs = (c # pre) @ n @ post" by simp
      then show ?thesis by blast
    qed
  next
    assume "\<exists>pre post. c # cs = pre @ n @ post"
    then obtain pre post where e: "c # cs = pre @ n @ post" by auto
    show "py_in n (c # cs)"
    proof (cases pre)
      case Nil
      then have "startswith (c # cs) n" using e by (simp add: startswith_iff)
      then show ?thesis by simp
    next
      case (Cons a pre')
      then have "cs = pre' @ n @ post" using e by simp
      then have "py_in n cs" using Cons.IH by blast
      then show ?thesis by simp
    qed
  qed
qed

lemma py_in_append: "py_in n (pre @ n @ post)"
  unfolding py_in_iff by blast

lemma upper_lower_char: "py_upper_char (py_lower_char c) = py_upper_char c"
  unfolding py_upper_char_def py_lower_char_def Let_def by auto

lemma py_upper_lower: "py_upper (py_lower s) = py_upper s"
  by (simp add: py_upper_def py_lower_def upper_lower_char)

lemma py_upper_append: "py_upper (a @ b) = py_upper a @ py_upper b"
  by (simp add: py_upper_def)

section \<open>The validator\<close>

lemma upper_delete: "py_upper ''delete'' = ''DELETE''"
  by code_simp

lemma any_case_delete:
  assumes "py_lower mid = ''delete''"
  shows "py_in ''DELETE'' (py_upper (pre @ mid @ post))"
proof -
  have "py_upper mid = py_upper (py_lower mid)" by (simp add: py_upper_lower)
  then have "py_upper mid = ''DELETE''" using assms upper_delete by simp
  then show ?thesis by (simp only: py_upper_append py_in_append)
qed

lemma destructive_msg_error: "startswith (destructive_msg k) ''ERROR''"
  by (simp add: destructive_msg_def)

lemma delete_is_keyword: "''DELETE'' \<in> set destructive_keywords"
  by (simp add: destructive_keywords_def)

lemma check_security_errors:
  "\<exists>warnings. snd (check_security q) =
     map destructive_msg (filter (\<lambda>keyword. py_in keyword (py_upper q)) destructive_keywords) @
     warnings"
  by (simp add: check_security_def Let_def)

lemma check_security_fst:
  "fst (check_security q) = (filter (\<lambda>e. startswith e ''ERROR'') (snd (check_security q)) = [])"
  by (simp add: check_security_def Let_def)

lemma check_security_delete:
  assumes "py_in ''DELETE'' (py_upper q)"
  shows "destructive_msg ''DELETE'' \<in> set (snd (check_security q))"
    and "\<not> fst (check_security q)"
proof -
  obtain warnings where w: "snd (check_security q) =
     map destructive_msg (filter (\<lambda>keyword. py_in keyword (py_upper q)) destructive_keywords) @
     warnings"
    using check_security_errors by blast
  have "''DELETE'' \<in> set (filter (\<lambda>keyword. py_in keyword (py_upper q)) destructive_keywords)"
    using assms delete_is_keyword by simp
  then show a: "destructive_msg ''DELETE'' \<in> set (snd (check_security q))"
    unfolding w by simp
  have "destructive_msg ''DELETE''
          \<in> set (filter (\<lambda>e. startswith e ''ERROR'') (snd (check_security q)))"
    using a destructive_msg_error by simp
  then have "filter (\<lambda>e. startswith e ''ERROR'') (snd (check_security q)) \<noteq> []"
    by (metis empty_iff empty_set)
  then show "\<not> fst (check_security q)"
    by (simp add: check_security_fst)
qed

lemma validate_query_insecure:
  assumes "\<not> fst (check_security q)"
  shows "\<not> fst (validate_query env q)"
    and "validate_cypher_syntax env q = None \<Longrightarrow>
         set (snd (check_security q)) \<subseteq> set (snd (validate_query env q))"
  using assms by (auto simp: validate_query_def Let_def split: option.splits prod.splits)

text \<open>
  C2. A query whose text holds the word DELETE in any mix of upper and lower case, at any
  place (\<open>mid\<close> is the occurrence, \<open>pre\<close> and \<open>post\<close> the arbitrary rest), makes
  \<open>_check_security\<close> report the destructive-operation ERROR for DELETE and answer unsafe,
  and \<open>validate_query\<close> answers \<open>is_valid = False\<close> whatever the schema and the syntax
  check say; when the syntax check passes, the ERROR is in the list \<open>validate_query\<close>
  returns.
\<close>

theorem delete_any_case_rejected:
  assumes "py_lower mid = ''delete''"
  shows "destructive_msg ''DELETE'' \<in> set (snd (check_security (pre @ mid @ post))) \<and>
         \<not> fst (check_security (pre @ mid @ post)) \<and>
         \<not> fst (validate_query env (pre @ mid @ post)) \<and>
         (validate_cypher_syntax env (pre @ mid @ post) = None \<longrightarrow>
            destructive_msg ''DELETE'' \<in> set (snd (validate_query env (pre @ mid @ post))))"
proof -
  let ?q = "pre @ mid @ post"
  have d: "py_in ''DELETE'' (py_upper ?q)" using assms by (rule any_case_delete)
  have m: "destructive_msg ''DELETE'' \<in> set (snd (check_security ?q))"
    and u: "\<not> fst (check_security ?q)"
    using check_security_delete [OF d] by blast+
  have v: "\<not> fst (validate_query env ?q)" using u by (rule validate_query_insecure(1))
  have "validate_cypher_syntax env ?q = None \<Longrightarrow>
        destructive_msg ''DELETE'' \<in> set (snd (validate_query env ?q))"
    using validate_query_insecure(2) [OF u] m by blast
  then show ?thesis using m u v by blast
qed

theorem delete_any_case_rejected_witness:
  "py_lower ''DeLeTe'' = ''delete'' \<and>
   destructive_msg ''DELETE'' \<in> set (snd (check_security ''MATCH (n:Drug) DeLeTe n'')) \<and>
   \<not> fst (check_security ''MATCH (n:Drug) DeLeTe n'') \<and>
   \<not> fst (validate_query example_env ''MATCH (n:Drug) DeLeTe n'') \<and>
   validate_cypher_syntax example_env ''MATCH (n:Drug) DeLeTe n'' = None \<and>
   destructive_msg ''DELETE'' \<in> set (snd (validate_query example_env ''MATCH (n:Drug) DeLeTe n''))"
proof -
  have h: "py_lower ''DeLeTe'' = ''delete''" by code_simp
  have s: "validate_cypher_syntax example_env ''MATCH (n:Drug) DeLeTe n'' = None"
    by (simp add: example_env_def)
  show ?thesis
    using h s delete_any_case_rejected [OF h, of "''MATCH (n:Drug) ''" "'' n''" example_env]
    by simp
qed

text \<open>
  C10. When the syntax check fails with message \<open>msg\<close>, \<open>validate_query\<close> returns
  \<open>is_valid = False\<close> and exactly one message, \<open>Syntax error: msg\<close>. The message carries
  neither the \<open>ERROR:\<close> nor the \<open>WARNING:\<close> prefix, so no entry of the returned list is
  tagged as an error, and the result is the same for every schema catalog: the schema,
  security and performance stages contribute nothing.
\<close>

theorem syntax_failure_single_untagged_message:
  assumes "validate_cypher_syntax env q = Some msg"
  shows "validate_query env q = (False, [''Syntax error: '' @ msg]) \<and>
         \<not> startswith (''Syntax error: '' @ msg) ''ERROR:'' \<and>
         \<not> startswith (''Syntax error: '' @ msg) ''WARNING:'' \<and>
         list_all (\<lambda>e. \<not> startswith e ''ERROR:'') (snd (validate_query env q)) \<and>
         (\<forall>labels rels.
            validate_query (env\<lparr>node_types := labels, relationship_types := rels\<rparr>) q =
            validate_query env q)"
  using assms by (simp add: validate_query_def)

theorem syntax_failure_single_untagged_message_witness:
  "validate_cypher_syntax failing_env ''MATCH (n:Drug RETURN n'' = Some ''Invalid input'' \<and>
   validate_query failing_env ''MATCH (n:Drug RETURN n'' =
     (False, [''Syntax error: Invalid input'']) \<and>
   \<not> startswith ''Syntax error: Invalid input'' ''ERROR:'' \<and>
   \<not> startswith ''Syntax error: Invalid input'' ''WARNING:'' \<and>
   list_all (\<lambda>e. \<not> startswith e ''ERROR:'')
     (snd (validate_query failing_env ''MATCH (n:Drug RETURN n''))"
proof -
  have h: "validate_cypher_syntax failing_env ''MATCH (n:Drug RETURN n'' = Some ''Invalid input''"
    by (simp add: failing_env_def)
  show ?thesis
    using h syntax_failure_single_untagged_message [OF h] by simp
qed











section \<open>The templates\<close>


























section \<open>Template matching\<close>



















end
